theory Spec2Isabelle
  imports Main
begin

section \<open>JavaScript values\<close>

text \<open>
  The request handlers of \<^verbatim>\<open>src/app.js\<close> work on the request body, on the route
  parameter \<^verbatim>\<open>id\<close> (always a string) and on the replies of the PostgreSQL client.
  The body is parsed JSON (\<^verbatim>\<open>app.use(express.json())\<close>) or, on the routes that run
  \<^verbatim>\<open>upload.single('photo')\<close>, the text fields of a multipart form. A JavaScript value
  is one of the JSON shapes, or \<^verbatim>\<open>undefined\<close>, which a missing property reads as, or
  an object without a prototype (\<open>JBare\<close>): the upload middleware builds one, with
  \<^verbatim>\<open>Object.create(null)\<close>, for a nested field name such as \<^verbatim>\<open>name[x]\<close>. An object
  is the list of its own enumerable properties in the order \<^verbatim>\<open>Object.keys\<close>
  enumerates them; a JavaScript object never holds a key twice, which theorems state
  as \<open>distinct (map fst vals)\<close> where they need it. The handlers read the body through
  its own keys and through the names name, description and photo only, so whether the
  body itself has a prototype makes no difference to them.
  The handlers never compute with a number; its payload is an integer here.
\<close>

datatype jsval =
    JUndefined
  | JNull
  | JBool bool
  | JNum int
  | JStr string
  | JArr "jsval list"
  | JObj "(string \<times> jsval) list"
  | JBare "(string \<times> jsval) list"

type_synonym jsobject = "(string \<times> jsval) list"

definition object_keys :: "jsobject \<Rightarrow> string list" where
  "object_keys vals = map fst vals"

text \<open>\<^verbatim>\<open>vals[key]\<close> for an own property, \<^verbatim>\<open>undefined\<close> for a name the object lacks.\<close>

definition get_prop :: "jsobject \<Rightarrow> string \<Rightarrow> jsval" where
  "get_prop vals key = (case map_of vals key of None \<Rightarrow> JUndefined | Some v \<Rightarrow> v)"

subsection \<open>Numbers and arrays to strings\<close>

definition digit_char :: "nat \<Rightarrow> char" where
  "digit_char d = char_of (48 + d)"

fun show_nat :: "nat \<Rightarrow> string" where
  "show_nat n = (if n < 10 then [digit_char n] else show_nat (n div 10) @ [digit_char (n mod 10)])"

declare show_nat.simps [simp del]

text \<open>
  What a template literal or \<^verbatim>\<open>String(n)\<close> gives for an integral number in plain
  decimal notation. The handlers render the placeholder indices with it, and the values
  of \<^verbatim>\<open>valuesString\<close>, which nothing reads.
\<close>

definition number_to_string :: "int \<Rightarrow> string" where
  "number_to_string i = (if i < 0 then CHR ''-'' # show_nat (nat (- i)) else show_nat (nat i))"

text \<open>\<^verbatim>\<open>Array.prototype.indexOf\<close>: the first position of the element, \<open>-1\<close> without one.\<close>

fun indexOf :: "'a list \<Rightarrow> 'a \<Rightarrow> int" where
  "indexOf [] x = - 1"
| "indexOf (y # ys) x =
     (if y = x then 0 else (let i = indexOf ys x in if i < 0 then - 1 else i + 1))"

text \<open>\<^verbatim>\<open>Array.prototype.join\<close> on an array of strings.\<close>

fun join_strings :: "string \<Rightarrow> string list \<Rightarrow> string" where
  "join_strings sep [] = []"
| "join_strings sep [x] = x"
| "join_strings sep (x # y # ys) = x @ sep @ join_strings sep (y # ys)"

text \<open>
  \<^verbatim>\<open>ToString\<close> of a value, and \<^verbatim>\<open>join\<close> on an array of values. \<open>None\<close> is the
  \<^verbatim>\<open>TypeError\<close> "Cannot convert object to primitive value": a parsed JSON object that
  has a key \<^verbatim>\<open>toString\<close> of its own shadows \<^verbatim>\<open>Object.prototype.toString\<close> with a value
  that is not callable, and \<^verbatim>\<open>valueOf\<close> gives no primitive either; an object without
  a prototype inherits neither method, and its own properties, parsed from a form, are
  never callable, so it has no string at all. Inside \<^verbatim>\<open>join\<close>,
  \<^verbatim>\<open>null\<close> and \<^verbatim>\<open>undefined\<close> elements become the empty string; an array element is
  joined with a comma, as \<^verbatim>\<open>Array.prototype.toString\<close> does.
\<close>

fun to_string :: "jsval \<Rightarrow> string option"
  and join_elems :: "string \<Rightarrow> jsval list \<Rightarrow> string option"
  and elem_string :: "jsval \<Rightarrow> string option"
where
  "to_string JUndefined = Some ''undefined''"
| "to_string JNull = Some ''null''"
| "to_string (JBool b) = Some (if b then ''true'' else ''false'')"
| "to_string (JNum n) = Some (number_to_string n)"
| "to_string (JStr s) = Some s"
| "to_string (JArr xs) = join_elems '','' xs"
| "to_string (JObj kvs) =
     (if ''toString'' \<in> set (map fst kvs) then None else Some ''[object Object]'')"
| "to_string (JBare kvs) = None"
| "join_elems sep [] = Some []"
| "join_elems sep [x] = elem_string x"
| "join_elems sep (x # y # ys) =
     (case elem_string x of
        None \<Rightarrow> None
      | Some a \<Rightarrow> (case join_elems sep (y # ys) of None \<Rightarrow> None | Some b \<Rightarrow> Some (a @ sep @ b)))"
| "elem_string JUndefined = Some []"
| "elem_string JNull = Some []"
| "elem_string (JBool b) = to_string (JBool b)"
| "elem_string (JNum n) = to_string (JNum n)"
| "elem_string (JStr s) = to_string (JStr s)"
| "elem_string (JArr xs) = to_string (JArr xs)"
| "elem_string (JObj kvs) = to_string (JObj kvs)"
| "elem_string (JBare kvs) = to_string (JBare kvs)"

section \<open>The store client and the server state\<close>

text \<open>
  The datastore is outside the repository: the handlers reach it through the pool of
  \<^verbatim>\<open>pg\<close> (\<^verbatim>\<open>pool.connect()\<close>, \<^verbatim>\<open>client.query(text, values)\<close>,
  \<^verbatim>\<open>client.release()\<close>). It enters the model as a parameter: whether a connection can
  be acquired, and what a statement with its bound values is answered with, a rejection
  or a result with its \<^verbatim>\<open>rows\<close> and \<^verbatim>\<open>rowCount\<close>, together with the store afterwards.
  Every theorem about a handler holds for whatever store stands behind it.
\<close>

datatype pg_error = PgError string

record qresult =
  rows :: "jsobject list"
  rowCount :: nat

record 'db pg_env =
  connect :: "'db \<Rightarrow> bool"
  query :: "'db \<Rightarrow> string \<Rightarrow> jsval list \<Rightarrow> (pg_error + qresult) \<times> 'db"

text \<open>
  What a request can change: the store, the number of clients checked out of the pool
  and not yet released, and the statements sent to the store so far, each with its
  bound values.
\<close>

record 'db server =
  db :: 'db
  held :: nat
  calls :: "(string \<times> jsval list) list"

text \<open>
  A request as a handler sees it: the route parameter \<^verbatim>\<open>req.params.id\<close>, the parsed
  body \<^verbatim>\<open>req.body\<close> and the file the upload middleware parsed, \<^verbatim>\<open>req.file\<close>.
\<close>

record request =
  param_id :: string
  body :: jsobject
  req_file :: "string option"

record response =
  status :: nat
  sent :: string

text \<open>\<^verbatim>\<open>res.send(text)\<close> and \<^verbatim>\<open>res.status(code).send(text)\<close>.\<close>

definition send :: "string \<Rightarrow> response" where
  "send text = \<lparr>status = 200, sent = text\<rparr>"

definition send_status :: "nat \<Rightarrow> string \<Rightarrow> response" where
  "send_status code text = \<lparr>status = code, sent = text\<rparr>"

definition acquire :: "'db server \<Rightarrow> 'db server" where
  "acquire s = s\<lparr>held := held s + 1\<rparr>"

definition release :: "'db server \<Rightarrow> 'db server" where
  "release s = s\<lparr>held := held s - 1\<rparr>"

definition client_query ::
  "'db pg_env \<Rightarrow> string \<Rightarrow> jsval list \<Rightarrow> 'db server \<Rightarrow> (pg_error + qresult) \<times> 'db server" where
  "client_query env text values s =
     (case query env (db s) text values of
        (reply, db') \<Rightarrow> (reply, s\<lparr>db := db', calls := calls s @ [(text, values)]\<rparr>))"

text \<open>
  \<^verbatim>\<open>result.rows[0].id\<close>: with no row, \<^verbatim>\<open>rows[0]\<close> is \<^verbatim>\<open>undefined\<close> and reading
  \<^verbatim>\<open>.id\<close> of it throws a \<^verbatim>\<open>TypeError\<close> (\<open>None\<close>).
\<close>

definition first_row_id :: "qresult \<Rightarrow> jsval option" where
  "first_row_id result = (case rows result of [] \<Rightarrow> None | r # _ \<Rightarrow> Some (get_prop r ''id''))"

section \<open>The statement of a partial update\<close>

text \<open>
  Lines 162 to 172 of the PATCH handler: the keys of the body whose value is not
  \<^verbatim>\<open>null\<close>, their values, the assignments \<^verbatim>\<open>key = $n\<close> with \<open>n\<close> taken from
  \<^verbatim>\<open>keys.indexOf(key) + 1\<close>, and the statement text, which ends in the request's id.
\<close>

definition patch_keys :: "jsobject \<Rightarrow> string list" where
  "patch_keys vals = filter (\<lambda>key. get_prop vals key \<noteq> JNull) (object_keys vals)"

definition patch_values :: "jsobject \<Rightarrow> jsval list" where
  "patch_values vals = map (\<lambda>key. get_prop vals key) (patch_keys vals)"

definition keysWithId :: "string list \<Rightarrow> string list" where
  "keysWithId keys = map (\<lambda>key. key @ '' = $'' @ number_to_string (indexOf keys key + 1)) keys"

definition keysWithIdString :: "string list \<Rightarrow> string" where
  "keysWithIdString keys = join_strings '', '' (keysWithId keys)"

definition keysWithIdStringWithId :: "string \<Rightarrow> string list \<Rightarrow> string" where
  "keysWithIdStringWithId id' keys = keysWithIdString keys @ '' WHERE id = '' @ id'"

definition patch_text :: "string \<Rightarrow> jsobject \<Rightarrow> string" where
  "patch_text id' vals = ''UPDATE recipes SET '' @ keysWithIdStringWithId id' (patch_keys vals)"

section \<open>The handlers\<close>

text \<open>
  Each handler is one \<^verbatim>\<open>try\<close> block: whatever throws or rejects inside it, be it
  \<^verbatim>\<open>pool.connect()\<close>, a stringification or a query, ends in the \<^verbatim>\<open>catch\<close>, which
  answers 500 and does nothing else. \<^verbatim>\<open>client.release()\<close> stands once, at the end of
  the \<^verbatim>\<open>try\<close> block. Output to the console reaches neither the caller nor the store
  and is left out.
\<close>

definition insert_text :: string where
  "insert_text = ''INSERT INTO recipes (name, description, photo) VALUES ($1, $2, $3) RETURNING id''"

definition update_text :: string where
  "update_text = ''UPDATE recipes SET name = $1, description = $2, photo = $3 WHERE id = $4''"

definition delete_text :: string where
  "delete_text = ''DELETE FROM recipes WHERE id = $1''"

text \<open>\<^verbatim>\<open>app.post('/create-recipe')\<close>\<close>

definition create_recipe :: "'db pg_env \<Rightarrow> request \<Rightarrow> 'db server \<Rightarrow> response \<times> 'db server" where
  "create_recipe env req s =
     (let name = get_prop (body req) ''name'';
          description = get_prop (body req) ''description'';
          photo = get_prop (body req) ''photo''
      in if connect env (db s) then
           (case client_query env insert_text [name, description, photo] (acquire s) of
              (Inl e, s') \<Rightarrow> (send_status 500 ''Error creating recipe'', s')
            | (Inr result, s') \<Rightarrow>
                (case first_row_id result of
                   None \<Rightarrow> (send_status 500 ''Error creating recipe'', s')
                 | Some recipeId \<Rightarrow> (send ''Recipe created successfully'', release s')))
         else (send_status 500 ''Error creating recipe'', s))"

text \<open>
  \<^verbatim>\<open>app.put('/update-recipe/:id')\<close>: the inner \<^verbatim>\<open>try\<close> reads \<^verbatim>\<open>result.rows[0].id\<close>
  of the update's result, and its \<^verbatim>\<open>catch\<close> inserts.
\<close>

definition update_recipe :: "'db pg_env \<Rightarrow> request \<Rightarrow> 'db server \<Rightarrow> response \<times> 'db server" where
  "update_recipe env req s =
     (let id' = param_id req;
          name = get_prop (body req) ''name'';
          description = get_prop (body req) ''description'';
          photo = get_prop (body req) ''photo''
      in if connect env (db s) then
           (case client_query env update_text [name, description, photo, JStr id'] (acquire s) of
              (Inl e, s') \<Rightarrow> (send_status 500 ''Error updating recipe'', s')
            | (Inr result, s') \<Rightarrow>
                (case first_row_id result of
                   Some recipeId \<Rightarrow> (send ''Recipe updated successfully'', release s')
                 | None \<Rightarrow>
                     (case client_query env insert_text [name, description, photo] s' of
                        (Inl e, s'') \<Rightarrow> (send_status 500 ''Error updating recipe'', s'')
                      | (Inr result', s'') \<Rightarrow>
                          (case first_row_id result' of
                             None \<Rightarrow> (send_status 500 ''Error updating recipe'', s'')
                           | Some recipeId \<Rightarrow>
                               (send ''Recipe updated successfully'', release s'')))))
         else (send_status 500 ''Error updating recipe'', s))"

text \<open>
  \<^verbatim>\<open>app.patch('/patch-recipe/:id')\<close>: the connection is acquired first; then the
  statement is put together, \<^verbatim>\<open>values.join(', ')\<close> among it (its result goes into
  \<^verbatim>\<open>valuesStringWithId\<close>, which nothing reads, but it throws where a value has no
  string); then the one query.
\<close>

definition patch_recipe :: "'db pg_env \<Rightarrow> request \<Rightarrow> 'db server \<Rightarrow> response \<times> 'db server" where
  "patch_recipe env req s =
     (let id' = param_id req;
          vals = body req
      in if connect env (db s) then
           (let s1 = acquire s;
                keys = patch_keys vals;
                values = patch_values vals
            in case join_elems '', '' values of
                 None \<Rightarrow> (send_status 500 ''Error updating recipe'', s1)
               | Some valuesString \<Rightarrow>
                   (let valuesStringWithId = valuesString @ '', '' @ id'
                    in case client_query env
                              (''UPDATE recipes SET '' @ keysWithIdStringWithId id' keys) values s1 of
                         (Inl e, s') \<Rightarrow> (send_status 500 ''Error updating recipe'', s')
                       | (Inr result, s') \<Rightarrow> (send ''Recipe patched successfully'', release s')))
         else (send_status 500 ''Error updating recipe'', s))"

text \<open>\<^verbatim>\<open>app.delete('/delete-recipe/:id')\<close>\<close>

definition delete_recipe :: "'db pg_env \<Rightarrow> request \<Rightarrow> 'db server \<Rightarrow> response \<times> 'db server" where
  "delete_recipe env req s =
     (let id' = param_id req
      in if connect env (db s) then
           (case client_query env delete_text [JStr id'] (acquire s) of
              (Inl e, s') \<Rightarrow> (send_status 500 ''Error deleting recipe'', s')
            | (Inr result, s') \<Rightarrow> (send ''Recipe deleted successfully'', release s'))
         else (send_status 500 ''Error deleting recipe'', s))"

section \<open>Stores to run the handlers against\<close>

text \<open>
  The answers a PostgreSQL client gives: a statement without a \<^verbatim>\<open>RETURNING\<close> clause is
  answered with no rows and the number of rows it touched; an insert
  \<^verbatim>\<open>RETURNING id\<close> with one row holding the new id; a statement the store refuses
  with a rejection.
\<close>

definition affected :: "nat \<Rightarrow> pg_error + qresult" where
  "affected n = Inr \<lparr>rows = [], rowCount = n\<rparr>"

definition returned_id :: "int \<Rightarrow> pg_error + qresult" where
  "returned_id n = Inr \<lparr>rows = [[(''id'', JNum n)]], rowCount = 1\<rparr>"

definition rejected :: "string \<Rightarrow> pg_error + qresult" where
  "rejected msg = Inl (PgError msg)"

text \<open>A store that hands out a connection and answers each statement as \<open>f\<close> says.\<close>

definition answering :: "(string \<Rightarrow> jsval list \<Rightarrow> pg_error + qresult) \<Rightarrow> unit pg_env" where
  "answering f = \<lparr>connect = (\<lambda>d. True), query = (\<lambda>d text values. (f text values, d))\<rparr>"

definition idle :: "unit server" where
  "idle = \<lparr>db = (), held = 0, calls = []\<rparr>"

text \<open>
  A store that refuses every statement, as PostgreSQL refuses one it cannot parse or
  one that names a column the table lacks.
\<close>

definition refusing_store :: "unit pg_env" where
  "refusing_store = answering (\<lambda>text values. rejected ''syntax error'')"

text \<open>
  A store whose table answers the insert with the id it assigns, \<open>new_id\<close>, and every
  other statement (the handlers' updates and deletes by id) with \<open>n\<close> rows touched:
  \<open>n = 1\<close> where a row of the requested id exists, \<open>n = 0\<close> where none does.
\<close>

definition keyed_store :: "nat \<Rightarrow> int \<Rightarrow> unit pg_env" where
  "keyed_store n new_id =
     answering (\<lambda>text values. if text = insert_text then returned_id new_id else affected n)"

text \<open>
  A store that keeps the rows inserted into it, each as the values bound to the insert,
  and gives them the ids 1, 2 and so on; any other statement touches no row of it.
\<close>

definition keeping_store :: "jsval list list pg_env" where
  "keeping_store =
     \<lparr>connect = (\<lambda>d. True),
      query = (\<lambda>d text values.
        if text = insert_text then (returned_id (int (length d) + 1), d @ [values])
        else (affected 0, d))\<rparr>"

definition empty_table :: "jsval list list server" where
  "empty_table = \<lparr>db = [], held = 0, calls = []\<rparr>"

text \<open>Requests used below.\<close>

definition toast :: jsobject where
  "toast = [(''name'', JStr ''Toast''), (''description'', JStr ''Simple''), (''photo'', JStr [])]"

definition falsy_body :: jsobject where
  "falsy_body =
     [(''name'', JStr []), (''description'', JNull), (''photo'', JNum 0), (''vegan'', JBool False)]"

definition with_upload :: "string \<Rightarrow> jsobject \<Rightarrow> request" where
  "with_upload bytes vals = \<lparr>param_id = [], body = vals, req_file = Some bytes\<rparr>"

definition request_of :: "string \<Rightarrow> jsobject \<Rightarrow> request" where
  "request_of id' vals = \<lparr>param_id = id', body = vals, req_file = None\<rparr>"

section \<open>Properties of the statement builder\<close>

lemma indexOf_nonneg: "x \<in> set xs \<Longrightarrow> 0 \<le> indexOf xs x"
  by (induction xs) (auto simp: Let_def)

lemma indexOf_nth: "distinct xs \<Longrightarrow> i < length xs \<Longrightarrow> indexOf xs (xs ! i) = int i"
proof (induction xs arbitrary: i)
  case Nil
  then show ?case by simp
next
  case (Cons y ys)
  show ?case
  proof (cases i)
    case 0
    then show ?thesis by simp
  next
    case (Suc j)
    with Cons.prems have j: "j < length ys" and d: "distinct ys" and ny: "y \<notin> set ys"
      by auto
    from j ny have "ys ! j \<noteq> y" by (metis nth_mem)
    moreover from Cons.IH [OF d j] have "indexOf ys (ys ! j) = int j" .
    ultimately show ?thesis using Suc by (simp add: Let_def)
  qed
qed

lemma keysWithId_positions:
  "distinct keys \<Longrightarrow>
   keysWithId keys =
     map (\<lambda>i. keys ! i @ '' = $'' @ number_to_string (int i + 1)) [0..<length keys]"
proof (rule nth_equalityI)
  show "length (keysWithId keys) =
        length (map (\<lambda>i. keys ! i @ '' = $'' @ number_to_string (int i + 1)) [0..<length keys])"
    by (simp add: keysWithId_def)
next
  fix i
  assume d: "distinct keys" and "i < length (keysWithId keys)"
  then have i: "i < length keys" by (simp add: keysWithId_def)
  with d have "indexOf keys (keys ! i) = int i" by (rule indexOf_nth)
  with i show "keysWithId keys ! i =
        map (\<lambda>i. keys ! i @ '' = $'' @ number_to_string (int i + 1)) [0..<length keys] ! i"
    by (simp add: keysWithId_def)
qed

lemma get_prop_member:
  "distinct (map fst vals) \<Longrightarrow> (k, v) \<in> set vals \<Longrightarrow> get_prop vals k = v"
  by (simp add: get_prop_def)

lemma patch_keys_filter:
  assumes "distinct (map fst vals)"
  shows "patch_keys vals = map fst (filter (\<lambda>kv. snd kv \<noteq> JNull) vals)"
proof -
  have "filter ((\<lambda>key. get_prop vals key \<noteq> JNull) \<circ> fst) vals
        = filter (\<lambda>kv. snd kv \<noteq> JNull) vals"
    using assms by (intro filter_cong refl) (auto simp: get_prop_member)
  then show ?thesis
    by (simp add: patch_keys_def object_keys_def filter_map)
qed

lemma patch_values_filter:
  assumes "distinct (map fst vals)"
  shows "patch_values vals = map snd (filter (\<lambda>kv. snd kv \<noteq> JNull) vals)"
proof -
  have "map (\<lambda>kv. get_prop vals (fst kv)) (filter (\<lambda>kv. snd kv \<noteq> JNull) vals)
        = map snd (filter (\<lambda>kv. snd kv \<noteq> JNull) vals)"
    using assms by (intro map_cong refl) (auto simp: get_prop_member)
  then show ?thesis
    by (simp add: patch_values_def patch_keys_filter [OF assms] comp_def)
qed

lemma distinct_patch_keys: "distinct (map fst vals) \<Longrightarrow> distinct (patch_keys vals)"
  by (simp add: patch_keys_def object_keys_def)

lemma length_patch_values: "length (patch_values vals) = length (patch_keys vals)"
  by (simp add: patch_values_def)

text \<open>
  The values reach the statement text only through which of them are \<^verbatim>\<open>null\<close>; the
  id reaches it as it is.
\<close>

lemma patch_text_unfold:
  "patch_text id' vals =
     ''UPDATE recipes SET '' @ join_strings '', '' (keysWithId (patch_keys vals))
       @ '' WHERE id = '' @ id'"
  by (simp add: patch_text_def keysWithIdStringWithId_def keysWithIdString_def)

lemma patch_text_same_keys:
  "patch_keys vals = patch_keys vals' \<Longrightarrow> patch_text id' vals = patch_text id' vals'"
  by (simp add: patch_text_def)

section \<open>Properties of the handlers\<close>

lemma patch_recipe_calls:
  "calls (snd (patch_recipe env req s)) =
     (if connect env (db s) \<and> join_elems '', '' (patch_values (body req)) \<noteq> None
      then calls s @ [(patch_text (param_id req) (body req), patch_values (body req))]
      else calls s)"
  by (auto simp: patch_recipe_def patch_text_def client_query_def acquire_def release_def Let_def
      split: option.splits prod.splits sum.splits)


lemma patch_recipe_held:
  "held (snd (patch_recipe env req s)) =
     (if connect env (db s)
      then (case join_elems '', '' (patch_values (body req)) of
              None \<Rightarrow> held s + 1
            | Some valuesString \<Rightarrow>
               (case fst (query env (db s) (patch_text (param_id req) (body req))
                       (patch_values (body req))) of
                  Inl e \<Rightarrow> held s + 1
                | Inr result \<Rightarrow> held s))
      else held s)"
  by (auto simp: patch_recipe_def patch_text_def client_query_def acquire_def release_def Let_def
      split: option.splits prod.splits sum.splits)

lemma delete_recipe_response:
  "fst (delete_recipe env req s) =
     (if connect env (db s)
      then (case fst (query env (db s) delete_text [JStr (param_id req)]) of
              Inl e \<Rightarrow> send_status 500 ''Error deleting recipe''
            | Inr result \<Rightarrow> send ''Recipe deleted successfully'')
      else send_status 500 ''Error deleting recipe'')"
  by (auto simp: delete_recipe_def client_query_def acquire_def Let_def
      split: prod.splits sum.splits)

lemma create_recipe_calls:
  "calls (snd (create_recipe env req s)) =
     (if connect env (db s)
      then calls s @ [(insert_text, [get_prop (body req) ''name'',
             get_prop (body req) ''description'', get_prop (body req) ''photo''])]
      else calls s)"
  by (auto simp: create_recipe_def client_query_def acquire_def release_def Let_def
      split: prod.splits sum.splits option.splits)

lemma create_recipe_db:
  "db (snd (create_recipe env req s)) =
     (if connect env (db s)
      then snd (query env (db s) insert_text [get_prop (body req) ''name'',
             get_prop (body req) ''description'', get_prop (body req) ''photo''])
      else db s)"
  by (auto simp: create_recipe_def client_query_def acquire_def release_def Let_def
      split: prod.splits sum.splits option.splits)

text \<open>
  A nested field of a multipart form has no string: \<^verbatim>\<open>values.join\<close> throws after the
  connection was acquired and before any statement is sent.
\<close>

lemma patch_recipe_nested_field:
  "patch_recipe (keyed_store 1 2) (request_of ''1'' [(''name'', JBare [(''x'', JStr ''1'')])]) idle =
     (send_status 500 ''Error updating recipe'', \<lparr>db = (), held = 1, calls = []\<rparr>)"
  by code_simp

text \<open>
  A photo that comes as the uploaded file only is not in the body: the insert binds
  \<^verbatim>\<open>undefined\<close> in its place.
\<close>

lemma create_recipe_photo_sent_as_file:
  "calls (snd (create_recipe keeping_store
       (with_upload ''PNG'' [(''name'', JStr ''Toast''), (''description'', JStr ''Simple'')])
       empty_table)) =
     [(insert_text, [JStr ''Toast'', JStr ''Simple'', JUndefined])]"
  by code_simp

lemma update_recipe_no_rows_inserts:
  assumes "connect env (db s)"
    and "query env (db s) update_text
           [get_prop (body req) ''name'', get_prop (body req) ''description'',
            get_prop (body req) ''photo'', JStr (param_id req)] = (Inr result, d)"
    and "rows result = []"
  shows "calls (snd (update_recipe env req s)) =
           calls s @
           [(update_text, [get_prop (body req) ''name'', get_prop (body req) ''description'',
                           get_prop (body req) ''photo'', JStr (param_id req)]),
            (insert_text, [get_prop (body req) ''name'', get_prop (body req) ''description'',
                           get_prop (body req) ''photo''])]"
  using assms
  by (auto simp: update_recipe_def client_query_def acquire_def release_def first_row_id_def
      Let_def split: prod.splits sum.splits option.splits list.splits)

section \<open>The claims\<close>

text \<open>
  C9: for every POST /create-recipe request, the photo value bound into the insert is
  the \<^verbatim>\<open>photo\<close> property of the request body (\<^verbatim>\<open>undefined\<close> where the body has
  none), and the file parsed by the upload middleware is never read: two requests with
  the same body send the same insert, leave the store as that insert leaves it and get
  the same answer, whatever file came with them.
\<close>

theorem create_recipe_photo_from_body:
  assumes "body req' = body req"
  shows "create_recipe env req' s = create_recipe env req s
       \<and> calls (snd (create_recipe env req s)) =
           (if connect env (db s)
            then calls s @ [(insert_text, [get_prop (body req) ''name'',
                   get_prop (body req) ''description'', get_prop (body req) ''photo''])]
            else calls s)
       \<and> db (snd (create_recipe env req s)) =
           (if connect env (db s)
            then snd (query env (db s) insert_text [get_prop (body req) ''name'',
                   get_prop (body req) ''description'', get_prop (body req) ''photo''])
            else db s)"
proof -
  from assms have "create_recipe env req' s = create_recipe env req s"
    by (simp add: create_recipe_def)
  then show ?thesis
    using create_recipe_calls [of env req s] create_recipe_db [of env req s] by simp
qed

theorem create_recipe_photo_from_body_witness:
  "body (with_upload ''PNG'' toast) = body (request_of [] toast)
   \<and> create_recipe keeping_store (with_upload ''PNG'' toast) empty_table
       = create_recipe keeping_store (request_of [] toast) empty_table
   \<and> calls (snd (create_recipe keeping_store (request_of [] toast) empty_table)) =
        [(insert_text, [JStr ''Toast'', JStr ''Simple'', JStr []])]
   \<and> db (snd (create_recipe keeping_store (request_of [] toast) empty_table)) =
        [[JStr ''Toast'', JStr ''Simple'', JStr []]]"
proof -
  have e: "body (with_upload ''PNG'' toast) = body (request_of [] toast)"
    by (simp add: with_upload_def request_of_def)
  have r1: "(if connect keeping_store (db empty_table)
            then calls empty_table @ [(insert_text, [get_prop (body (request_of [] toast)) ''name'',
                   get_prop (body (request_of [] toast)) ''description'',
                   get_prop (body (request_of [] toast)) ''photo''])]
            else calls empty_table)
        = [(insert_text, [JStr ''Toast'', JStr ''Simple'', JStr []])]"
    by code_simp
  have r2: "(if connect keeping_store (db empty_table)
            then snd (query keeping_store (db empty_table) insert_text
                   [get_prop (body (request_of [] toast)) ''name'',
                    get_prop (body (request_of [] toast)) ''description'',
                    get_prop (body (request_of [] toast)) ''photo''])
            else db empty_table)
        = [[JStr ''Toast'', JStr ''Simple'', JStr []]]"
    by code_simp
  note t = create_recipe_photo_from_body [OF e, of keeping_store empty_table]
  show ?thesis
    by (rule conjI [OF e t [unfolded r1 r2]])
qed

text \<open>
  C10: for every PATCH request body, the fields the handler sets are the keys of the
  body whose value is not \<^verbatim>\<open>null\<close>, in the body's key order: a key with the value
  \<^verbatim>\<open>null\<close> is left out of the SET clause and of the bound values alike, and every
  other key stays, also one with an empty string, \<^verbatim>\<open>0\<close> or \<^verbatim>\<open>false\<close>. The
  assignment of the key at position \<open>i\<close> carries the placeholder \<open>i + 1\<close>, and the
  statement the handler sends is made of these keys and values; it sends none where no
  connection is to be had or \<^verbatim>\<open>values.join\<close> throws.
\<close>

theorem patch_sets_non_null_keys:
  assumes "distinct (map fst (body req))"
  shows "patch_keys (body req) = map fst (filter (\<lambda>kv. snd kv \<noteq> JNull) (body req))
       \<and> patch_values (body req) = map snd (filter (\<lambda>kv. snd kv \<noteq> JNull) (body req))
       \<and> keysWithId (patch_keys (body req)) =
           map (\<lambda>i. patch_keys (body req) ! i @ '' = $'' @ number_to_string (int i + 1))
             [0..<length (patch_keys (body req))]
       \<and> calls (snd (patch_recipe env req s)) =
           (if connect env (db s) \<and> join_elems '', '' (patch_values (body req)) \<noteq> None
            then calls s @
              [(''UPDATE recipes SET '' @ join_strings '', '' (keysWithId (patch_keys (body req)))
                  @ '' WHERE id = '' @ param_id req,
                patch_values (body req))]
            else calls s)"
proof -
  from assms have "distinct (patch_keys (body req))"
    by (rule distinct_patch_keys)
  then have "keysWithId (patch_keys (body req)) =
           map (\<lambda>i. patch_keys (body req) ! i @ '' = $'' @ number_to_string (int i + 1))
             [0..<length (patch_keys (body req))]"
    by (rule keysWithId_positions)
  moreover have "calls (snd (patch_recipe env req s)) =
           (if connect env (db s) \<and> join_elems '', '' (patch_values (body req)) \<noteq> None
            then calls s @
              [(''UPDATE recipes SET '' @ join_strings '', '' (keysWithId (patch_keys (body req)))
                  @ '' WHERE id = '' @ param_id req,
                patch_values (body req))]
            else calls s)"
    unfolding patch_recipe_calls patch_text_unfold by simp
  ultimately show ?thesis
    using patch_keys_filter [OF assms] patch_values_filter [OF assms] by simp
qed

theorem patch_sets_non_null_keys_witness:
  "distinct (map fst (body (request_of ''7'' falsy_body)))
   \<and> patch_keys (body (request_of ''7'' falsy_body)) = [''name'', ''photo'', ''vegan'']
   \<and> patch_values (body (request_of ''7'' falsy_body)) = [JStr [], JNum 0, JBool False]
   \<and> keysWithId (patch_keys (body (request_of ''7'' falsy_body))) =
        [''name = $1'', ''photo = $2'', ''vegan = $3'']
   \<and> calls (snd (patch_recipe refusing_store (request_of ''7'' falsy_body) idle)) =
        [(''UPDATE recipes SET name = $1, photo = $2, vegan = $3 WHERE id = 7'',
          [JStr [], JNum 0, JBool False])]"
proof -
  have d: "distinct (map fst (body (request_of ''7'' falsy_body)))"
    by (simp add: request_of_def falsy_body_def)
  have r1: "map fst (filter (\<lambda>kv. snd kv \<noteq> JNull) (body (request_of ''7'' falsy_body)))
        = [''name'', ''photo'', ''vegan'']"
    by code_simp
  have r2: "map snd (filter (\<lambda>kv. snd kv \<noteq> JNull) (body (request_of ''7'' falsy_body)))
        = [JStr [], JNum 0, JBool False]"
    by code_simp
  have r3: "map (\<lambda>i. patch_keys (body (request_of ''7'' falsy_body)) ! i @ '' = $''
                  @ number_to_string (int i + 1))
              [0..<length (patch_keys (body (request_of ''7'' falsy_body)))]
        = [''name = $1'', ''photo = $2'', ''vegan = $3'']"
    by code_simp
  have r4: "(if connect refusing_store (db idle)
                \<and> join_elems '', '' (patch_values (body (request_of ''7'' falsy_body))) \<noteq> None
            then calls idle @
              [(''UPDATE recipes SET ''
                  @ join_strings '', '' (keysWithId (patch_keys (body (request_of ''7'' falsy_body))))
                  @ '' WHERE id = '' @ param_id (request_of ''7'' falsy_body),
                patch_values (body (request_of ''7'' falsy_body)))]
            else calls idle)
        = [(''UPDATE recipes SET name = $1, photo = $2, vegan = $3 WHERE id = 7'',
            [JStr [], JNum 0, JBool False])]"
    by code_simp
  note t = patch_sets_non_null_keys [OF d, of refusing_store idle]
  show ?thesis
    by (rule conjI [OF d t [unfolded r1 r2 r3 r4]])
qed




text \<open>
  C1 asks that no value of the caller, the target id included, reaches the statement
  text of a PATCH. The field values do not: they are bound. The id does: the handler
  writes \<^verbatim>\<open>req.params.id\<close> into the text after \<^verbatim>\<open>WHERE id =\<close>, where the other
  handlers bind it. Two requests that differ only in the id give two statement texts,
  and an id that carries SQL becomes part of the statement that is sent.
\<close>

theorem patch_text_holds_the_id:
  "patch_text ''1'' [(''name'', JStr ''x'')] = ''UPDATE recipes SET name = $1 WHERE id = 1''
   \<and> patch_text ''2'' [(''name'', JStr ''x'')] = ''UPDATE recipes SET name = $1 WHERE id = 2''
   \<and> calls (snd (patch_recipe (keyed_store 1 2)
                   (request_of ''1 OR 1=1'' [(''name'', JStr ''x'')]) idle)) =
        [(''UPDATE recipes SET name = $1 WHERE id = 1 OR 1=1'', [JStr ''x''])]"
  by code_simp

text \<open>
  C2 asks for a parameter list of one more element than fields, with the id last and
  a placeholder of its own. The SET clause is as it says, but the bound values are the
  field values alone: for the two fields name and description of recipe 7 the handler
  binds two values, the last of them the description, and the text has no third
  placeholder, the id standing in it as text. This is the defect of C1 seen from the
  parameter list.
\<close>

theorem patch_binds_no_id:
  "patch_text ''7'' [(''name'', JStr ''Toast''), (''description'', JStr ''Simple'')] =
     ''UPDATE recipes SET name = $1, description = $2 WHERE id = 7''
   \<and> patch_values [(''name'', JStr ''Toast''), (''description'', JStr ''Simple'')] =
     [JStr ''Toast'', JStr ''Simple'']
   \<and> calls (snd (patch_recipe (keyed_store 1 2)
        (request_of ''7'' [(''name'', JStr ''Toast''), (''description'', JStr ''Simple'')]) idle)) =
     [(''UPDATE recipes SET name = $1, description = $2 WHERE id = 7'',
       [JStr ''Toast'', JStr ''Simple''])]"
  by code_simp

text \<open>
  C3 asks that a PUT on an existing id updates the row and inserts nothing. The update
  has no \<^verbatim>\<open>RETURNING\<close> clause, so its result has no rows also when it touched the row;
  reading \<^verbatim>\<open>result.rows[0].id\<close> throws, and the \<^verbatim>\<open>catch\<close> meant for the missing id
  inserts a second recipe. Against a store in which the update touches one row, the
  handler sends the update and then the insert.
\<close>

theorem update_recipe_existing_id_inserts_too:
  "update_recipe (keyed_store 1 2) (request_of ''1'' toast) idle =
     (send ''Recipe updated successfully'',
      \<lparr>db = (), held = 0,
         calls =
           [(''UPDATE recipes SET name = $1, description = $2, photo = $3 WHERE id = $4'',
             [JStr ''Toast'', JStr ''Simple'', JStr [], JStr ''1'']),
            (''INSERT INTO recipes (name, description, photo) VALUES ($1, $2, $3) RETURNING id'',
             [JStr ''Toast'', JStr ''Simple'', JStr []])]\<rparr>)"
  by code_simp

text \<open>
  C4 asks that a PATCH on an id without a row returns NotFound. The handler sends its
  one update and nothing else, so no row is created; but it never looks at the result,
  and answers a PATCH that touched no row as it answers one that touched a row.
\<close>

theorem patch_recipe_missing_id_reports_success:
  "patch_recipe (keyed_store 0 2) (request_of ''99'' [(''name'', JStr ''X'')]) idle =
     (send ''Recipe patched successfully'',
      \<lparr>db = (), held = 0,
         calls = [(''UPDATE recipes SET name = $1 WHERE id = 99'', [JStr ''X''])]\<rparr>)
   \<and> fst (patch_recipe (keyed_store 1 2) (request_of ''99'' [(''name'', JStr ''X'')]) idle) =
     send ''Recipe patched successfully''"
  by code_simp

text \<open>
  C6 asks that a PUT on an id without a row inserts one recipe and tells the caller so.
  It inserts one recipe, with the bound values of the body and no id; the answer is
  the text of every successful PUT, the same as where the row exists.
\<close>

theorem update_recipe_missing_id_answers_alike:
  "update_recipe (keyed_store 0 2) (request_of ''50'' toast) idle =
     (send ''Recipe updated successfully'',
      \<lparr>db = (), held = 0,
         calls =
           [(update_text, [JStr ''Toast'', JStr ''Simple'', JStr [], JStr ''50'']),
            (insert_text, [JStr ''Toast'', JStr ''Simple'', JStr []])]\<rparr>)
   \<and> fst (update_recipe (keyed_store 0 2) (request_of ''50'' toast) idle) =
     fst (update_recipe (keyed_store 1 2) (request_of ''50'' toast) idle)"
  by code_simp

text \<open>
  C7 asks that a DELETE tells a removed row from a missing one. The handler never looks
  at the result of its statement: the answer where one row was removed and the answer
  where none matched are the same.
\<close>

theorem delete_recipe_answers_alike:
  "delete_recipe (keyed_store 1 2) (request_of ''1'' []) idle =
     (send ''Recipe deleted successfully'',
      \<lparr>db = (), held = 0, calls = [(''DELETE FROM recipes WHERE id = $1'', [JStr ''1''])]\<rparr>)
   \<and> delete_recipe (keyed_store 0 2) (request_of ''1'' []) idle =
     (send ''Recipe deleted successfully'',
      \<lparr>db = (), held = 0, calls = [(''DELETE FROM recipes WHERE id = $1'', [JStr ''1''])]\<rparr>)"
  by code_simp

text \<open>
  C8 asks that an acquired connection is released on every exit path. Each handler
  releases at the end of its \<^verbatim>\<open>try\<close> block only: a PATCH whose statement the store
  refuses, a PATCH whose values cannot be joined (before any query), and a POST whose
  insert is refused all end with the connection still checked out.
\<close>

theorem failing_requests_keep_the_connection:
  "held (snd (patch_recipe refusing_store (request_of ''1'' []) idle)) = 1
   \<and> patch_recipe (keyed_store 1 2)
        (request_of ''1'' [(''name'', JObj [(''toString'', JNum 1)])]) idle =
       (send_status 500 ''Error updating recipe'', \<lparr>db = (), held = 1, calls = []\<rparr>)
   \<and> held (snd (create_recipe refusing_store (request_of [] [(''name'', JStr ''Toast'')]) idle)) = 1"
  by code_simp

end
